theory Spec2Isabelle
  imports Complex_Main "HOL-Library.Multiset"
begin

section \<open>Duel visualisation generator: the dataset builder\<close>

text \<open>
  The program \<^verbatim>\<open>generate_duels_viz.py\<close> reads per-match statistics, builds an ordered
  list of per-player duel records and a team summary, and draws a fixed-layout chart.
  Python exceptions are values of \<open>error\<close>; a function that can raise returns
  \<open>error + 'a\<close> with \<open>Inl\<close> for the exception.
\<close>

datatype error = KeyError | IndexError | ValueError

subsection \<open>Player rows\<close>

text \<open>
  One row of the data frame returned by \<^verbatim>\<open>scrape_player_match_stats\<close>, after the first
  occurrence of every column name has been kept. The three numeric columns may hold NaN,
  which is \<open>None\<close> here. The numeric cells are whole numbers.
\<close>

record player_row =
  name :: string
  position :: string
  substitute :: bool
  teamName :: string
  minutesPlayed :: "int option"
  duelWon :: "int option"
  duelLost :: "int option"

text \<open>A row after \<^verbatim>\<open>fillna(0.0)\<close>, with the added column \<^verbatim>\<open>duelTotal\<close>.\<close>

record duel_row =
  row_name :: string
  row_minutes :: int
  row_won :: int
  row_lost :: int
  duelTotal :: int

text \<open>One element of the returned list: \<^verbatim>\<open>{player, minutes, won, lost}\<close>.\<close>

record player_duel =
  player :: string
  minutes :: int
  won :: int
  lost :: int

subsection \<open>Filtering and filling\<close>

text \<open>
  The three boolean-mask selections of \<^verbatim>\<open>fetch_player_duels\<close>, applied one after the other
  in the order of the source.
\<close>

definition select_rows :: "string \<Rightarrow> player_row list \<Rightarrow> player_row list" where
  "select_rows team players =
     (let players1 = filter (\<lambda>r. position r \<noteq> ''G'') players;
          players2 = filter (\<lambda>r. substitute r = False) players1;
          players3 = filter (\<lambda>r. teamName r = team) players2
      in players3)"

definition fillna :: "int option \<Rightarrow> int" where
  "fillna v = (case v of None \<Rightarrow> 0 | Some x \<Rightarrow> x)"

definition fill_row :: "player_row \<Rightarrow> duel_row" where
  "fill_row r =
     (let w = fillna (duelWon r); l = fillna (duelLost r)
      in \<lparr>row_name = name r, row_minutes = fillna (minutesPlayed r),
          row_won = w, row_lost = l, duelTotal = w + l\<rparr>)"

subsection \<open>Sorting\<close>

text \<open>
  \<^verbatim>\<open>sort_values(by=["duelTotal", "duelWon"], ascending=[False, False])\<close>. With several
  keys pandas sorts lexicographically and keeps the frame order of rows whose keys are
  all equal. \<open>outranks a b\<close> says that \<open>a\<close> has to stand strictly before \<open>b\<close>. The rows
  are inserted from the last to the first, each one in front of the first row that does
  not outrank it, so a row stays in front of the later rows with the same keys.
\<close>

definition outranks :: "duel_row \<Rightarrow> duel_row \<Rightarrow> bool" where
  "outranks a b \<longleftrightarrow>
     duelTotal b < duelTotal a \<or> (duelTotal a = duelTotal b \<and> row_won b < row_won a)"

fun insert_row :: "duel_row \<Rightarrow> duel_row list \<Rightarrow> duel_row list" where
  "insert_row x [] = [x]"
| "insert_row x (y # ys) = (if outranks y x then y # insert_row x ys else x # y # ys)"

definition sort_values :: "duel_row list \<Rightarrow> duel_row list" where
  "sort_values rows = foldr insert_row rows []"

subsection \<open>The returned list\<close>

definition to_dict :: "duel_row \<Rightarrow> player_duel" where
  "to_dict r = \<lparr>player = row_name r, minutes = row_minutes r, won = row_won r, lost = row_lost r\<rparr>"

text \<open>The list \<^verbatim>\<open>result\<close> as it stands when the loop over the sorted frame has ended.\<close>

definition sorted_result :: "player_row list \<Rightarrow> string \<Rightarrow> player_duel list" where
  "sorted_result players team =
     map to_dict (sort_values (map fill_row (select_rows team players)))"

definition fetch_player_duels :: "player_row list \<Rightarrow> string \<Rightarrow> player_duel list" where
  "fetch_player_duels players team = rev (sorted_result players team)"

text \<open>
  The eligibility condition in the words of the specification: not a goalkeeper, in the
  starting eleven, and of the requested team.
\<close>

definition eligible :: "string \<Rightarrow> player_row \<Rightarrow> bool" where
  "eligible team r \<longleftrightarrow>
     position r \<noteq> ''G'' \<and> \<not> substitute r \<and> teamName r = team"

definition player_record :: "player_row \<Rightarrow> player_duel" where
  "player_record r = to_dict (fill_row r)"

definition duel_total :: "player_duel \<Rightarrow> int" where
  "duel_total p = won p + lost p"





section \<open>Text and numbers\<close>

subsection \<open>Decimal text of an integer\<close>

text \<open>
  Python's \<^verbatim>\<open>str\<close> on an \<^verbatim>\<open>int\<close>, also what an f-string writes for an integer field:
  the decimal digits without leading zeros, with a minus sign in front of a negative
  number. Strings are byte sequences; a character beyond ASCII is its UTF-8 bytes.
\<close>

definition digit_char :: "nat \<Rightarrow> char" where
  "digit_char d = ''0123456789'' ! d"

fun str_nat :: "nat \<Rightarrow> string" where
  "str_nat n = (if n < 10 then [digit_char n] else str_nat (n div 10) @ [digit_char (n mod 10)])"

declare str_nat.simps [simp del]

definition str_int :: "int \<Rightarrow> string" where
  "str_int i = (if i < 0 then CHR ''-'' # str_nat (nat (- i)) else str_nat (nat i))"

subsection \<open>Reading an integer\<close>

text \<open>
  Python's \<^verbatim>\<open>int\<close> on a string, for ASCII text: white space around the number is
  dropped, one sign may stand in front, the digits may be separated by single
  underscores, and anything else raises \<^verbatim>\<open>ValueError\<close>. The interpreter's limit on
  the number of digits of a numeral (4300 by default) is left out.
\<close>

definition is_digit :: "char \<Rightarrow> bool" where
  "is_digit c \<longleftrightarrow> c \<in> set ''0123456789''"

definition digit_val :: "char \<Rightarrow> nat" where
  "digit_val c = of_char c - 48"

definition is_space :: "char \<Rightarrow> bool" where
  "is_space c \<longleftrightarrow>
     c \<in> set [CHR '' '', CHR 0x09, CHR 0x0A, CHR 0x0B, CHR 0x0C, CHR 0x0D,
                CHR 0x1C, CHR 0x1D, CHR 0x1E, CHR 0x1F]"

definition strip :: "string \<Rightarrow> string" where
  "strip s = rev (dropWhile is_space (rev (dropWhile is_space s)))"

fun digits_value :: "nat \<Rightarrow> string \<Rightarrow> nat option" where
  "digits_value acc [] = Some acc"
| "digits_value acc [c] = (if is_digit c then Some (10 * acc + digit_val c) else None)"
| "digits_value acc (c # d # cs) =
     (if is_digit c then digits_value (10 * acc + digit_val c) (d # cs)
      else if c = CHR ''_'' \<and> is_digit d then digits_value (10 * acc + digit_val d) cs
      else None)"

definition unsigned_value :: "string \<Rightarrow> nat option" where
  "unsigned_value s =
     (case s of [] \<Rightarrow> None
      | c # cs \<Rightarrow> if is_digit c then digits_value (digit_val c) cs else None)"

definition int_of_str :: "string \<Rightarrow> error + int" where
  "int_of_str s =
     (let t = strip s;
          (negative, body) =
             (case t of [] \<Rightarrow> (False, t)
              | c # cs \<Rightarrow> if c = CHR ''-'' then (True, cs)
                         else if c = CHR ''+'' then (False, cs) else (False, t))
      in case unsigned_value body of
           None \<Rightarrow> Inl ValueError
         | Some n \<Rightarrow> Inr (if negative then - int n else int n))"

text \<open>\<^verbatim>\<open>s.replace("%", "")\<close>: every percent sign is removed.\<close>

definition replace_percent :: "string \<Rightarrow> string" where
  "replace_percent s = filter (\<lambda>c. c \<noteq> CHR ''%'') s"

subsection \<open>Floating point\<close>

text \<open>
  A Python \<^verbatim>\<open>float\<close> is a binary64 number, here the rational it denotes. \<open>fl\<close> rounds a
  rational to the nearest binary64 number, ties to the even significand; it is exact
  for the normal range (no overflow to infinity, no subnormal numbers), which is where
  the numbers of this program lie. \<open>expo k x\<close> is the exponent \<open>e\<close> with
  \<open>2 ^ e \<le> x < 2 ^ (e + 1)\<close> of a positive \<open>x\<close>, found in at most \<open>k\<close> steps.
  The arrays that \<^verbatim>\<open>create_chart\<close> makes from the integer counts hold whole numbers, and
  it adds them up and adds 1.5 and 0.25 to them. Binary64 has every multiple of a quarter
  with a numerator below \<open>2 ^ 53\<close> exactly (\<open>fl_quarters\<close> below), so these numbers are
  kept as they are; \<open>fl\<close> is applied where a result is rounded, in the legend widths.
\<close>

fun expo :: "nat \<Rightarrow> rat \<Rightarrow> int" where
  "expo 0 x = 0"
| "expo (Suc k) x =
     (if 2 \<le> x then expo k (x / 2) + 1 else if x < 1 then expo k (x * 2) - 1 else 0)"

definition pow2 :: "int \<Rightarrow> rat" where
  "pow2 e = (if 0 \<le> e then 2 ^ nat e else 1 / 2 ^ nat (- e))"

definition round_half_even :: "rat \<Rightarrow> int" where
  "round_half_even x =
     (let n = \<lfloor>x\<rfloor>; d = x - of_int n
      in if d < 1 / 2 then n else if 1 / 2 < d then n + 1 else if even n then n else n + 1)"

definition fl :: "rat \<Rightarrow> rat" where
  "fl x =
     (if x = 0 then 0
      else let u = pow2 (expo 1100 \<bar>x\<bar> - 52) in of_int (round_half_even (x / u)) * u)"

text \<open>\<^verbatim>\<open>int(v)\<close> on a float: the fraction is cut off, towards zero.\<close>

definition int_of_float :: "rat \<Rightarrow> int" where
  "int_of_float v = (if 0 \<le> v then \<lfloor>v\<rfloor> else \<lceil>v\<rceil>)"

section \<open>Match metadata\<close>

text \<open>
  The dictionary of \<^verbatim>\<open>get_match_dict\<close>, one field for every path the program reads;
  \<open>None\<close> is a missing key. \<^verbatim>\<open>datetime.fromtimestamp\<close> depends on the time zone of the
  host, so it is a parameter \<open>fromtimestamp\<close> of the model.
\<close>

record match_dict =
  startTimestamp :: "int option"
  tournament_name :: "string option"
  homeTeam_name :: "string option"
  awayTeam_name :: "string option"
  homeScore_current :: "int option"
  awayScore_current :: "int option"

record datetime =
  day :: int
  month :: int
  year :: int

record match_info =
  home_team :: string
  away_team :: string
  home_score :: int
  away_score :: int
  tournament :: string
  season :: string
  date :: string

definition TURKISH_MONTHS :: "(int \<times> string) list" where
  "TURKISH_MONTHS =
     [(1, ''Ocak''), (2, [CHR 0xC5, CHR 0x9E] @ ''ubat''), (3, ''Mart''), (4, ''Nisan''),
      (5, ''May'' @ [CHR 0xC4, CHR 0xB1] @ ''s''), (6, ''Haziran''), (7, ''Temmuz''),
      (8, ''A'' @ [CHR 0xC4, CHR 0x9F] @ ''ustos''), (9, ''Eyl'' @ [CHR 0xC3, CHR 0xBC] @ ''l''),
      (10, ''Ekim''), (11, ''Kas'' @ [CHR 0xC4, CHR 0xB1] @ ''m''),
      (12, ''Aral'' @ [CHR 0xC4, CHR 0xB1] @ ''k'')]"

definition TURKISH_TOURNAMENTS :: "(string \<times> string) list" where
  "TURKISH_TOURNAMENTS =
     [(''UEFA Champions League'', [CHR 0xC5, CHR 0x9E] @ ''ampiyonlar Ligi''),
      (''S'' @ [CHR 0xC3, CHR 0xBC] @ ''per Lig'', ''S'' @ [CHR 0xC3, CHR 0xBC] @ ''per Lig''),
      (''Turkish Cup'', ''Ziraat T'' @ [CHR 0xC3, CHR 0xBC] @ ''rkiye Kupas'' @ [CHR 0xC4, CHR 0xB1]),
      (''Turkish Super Cup'', ''S'' @ [CHR 0xC3, CHR 0xBC] @ ''per Kupa'')]"

text \<open>\<^verbatim>\<open>d[k]\<close> raises \<^verbatim>\<open>KeyError\<close> on a missing key; \<^verbatim>\<open>d.get(k, default)\<close> does not raise.\<close>

definition subscript :: "'a option \<Rightarrow> error + 'a" where
  "subscript v = (case v of None \<Rightarrow> Inl KeyError | Some x \<Rightarrow> Inr x)"

definition dict_get :: "('k \<times> 'v) list \<Rightarrow> 'k \<Rightarrow> 'v \<Rightarrow> 'v" where
  "dict_get d k fallback = (case map_of d k of None \<Rightarrow> fallback | Some v \<Rightarrow> v)"

definition bind :: "error + 'a \<Rightarrow> ('a \<Rightarrow> error + 'b) \<Rightarrow> error + 'b" where
  "bind m f = (case m of Inl e \<Rightarrow> Inl e | Inr x \<Rightarrow> f x)"

definition fetch_match_info :: "(int \<Rightarrow> error + datetime) \<Rightarrow> match_dict \<Rightarrow> error + match_info" where
  "fetch_match_info fromtimestamp md =
     bind (subscript (startTimestamp md)) (\<lambda>ts.
     bind (fromtimestamp ts) (\<lambda>dt.
     bind (subscript (map_of TURKISH_MONTHS (month dt))) (\<lambda>month_name.
     let formatted_date = str_int (day dt) @ '' '' @ month_name @ '' '' @ str_int (year dt) in
     bind (subscript (tournament_name md)) (\<lambda>tournament_en.
     let tournament_tr = dict_get TURKISH_TOURNAMENTS tournament_en tournament_en in
     bind (subscript (homeTeam_name md)) (\<lambda>home_name.
     bind (subscript (awayTeam_name md)) (\<lambda>away_name.
     bind (subscript (homeScore_current md)) (\<lambda>home_goals.
     bind (subscript (awayScore_current md)) (\<lambda>away_goals.
     Inr \<lparr>home_team = home_name, away_team = away_name,
          home_score = home_goals, away_score = away_goals,
          tournament = tournament_tr, season = ''2025/2026'',
          date = formatted_date\<rparr>))))))))"

section \<open>Team summary\<close>

text \<open>
  One row of the frame of \<^verbatim>\<open>scrape_team_match_stats\<close>; the column \<^verbatim>\<open>name\<close> is \<open>stat_name\<close>.
  \<open>teams\<close> is the pair of \<^verbatim>\<open>get_team_names\<close>, home first.
\<close>

record team_row =
  period :: string
  stat_name :: string
  home :: string
  away :: string
  homeValue :: int
  awayValue :: int

record team_summary =
  team_pct :: int
  opponent_pct :: int
  team_name :: string
  opponent_name :: string
  team_won :: int
  opponent_won :: int
  total :: int

text \<open>\<^verbatim>\<open>frame.iloc[0]\<close> raises \<^verbatim>\<open>IndexError\<close> on a frame without rows.\<close>

definition iloc0 :: "'a list \<Rightarrow> error + 'a" where
  "iloc0 rows = (case rows of [] \<Rightarrow> Inl IndexError | r # _ \<Rightarrow> Inr r)"

definition fetch_team_percentages :: "team_row list \<Rightarrow> string \<times> string \<Rightarrow> string \<Rightarrow> error + team_summary" where
  "fetch_team_percentages stats teams team =
     (let game = filter (\<lambda>r. period r = ''ALL'') stats in
      bind (iloc0 (filter (\<lambda>r. stat_name r = ''Duels'') game)) (\<lambda>duel_row.
      bind (iloc0 (filter (\<lambda>r. stat_name r = ''Ground duels'') game)) (\<lambda>ground_row.
      bind (iloc0 (filter (\<lambda>r. stat_name r = ''Aerial duels'') game)) (\<lambda>aerial_row.
      let is_home = (fst teams = team);
          opponent = (if is_home then snd teams else fst teams);
          team_pct_str = (if is_home then home duel_row else away duel_row);
          opponent_pct_str = (if is_home then away duel_row else home duel_row) in
      bind (int_of_str (replace_percent team_pct_str)) (\<lambda>tpct.
      bind (int_of_str (replace_percent opponent_pct_str)) (\<lambda>opct.
      let twon = (if is_home then homeValue ground_row + homeValue aerial_row
                  else awayValue ground_row + awayValue aerial_row);
          owon = (if is_home then awayValue ground_row + awayValue aerial_row
                  else homeValue ground_row + homeValue aerial_row) in
      Inr \<lparr>team_pct = tpct, opponent_pct = opct,
           team_name = team, opponent_name = opponent,
           team_won = twon, opponent_won = owon,
           total = twon + owon\<rparr>))))))"

section \<open>The chart\<close>

text \<open>
  What \<^verbatim>\<open>create_chart\<close> puts on the figure that depends on its arguments; colours, fonts,
  the fixed captions and the panel rectangles are constants of the source and are left
  out. Row \<open>i\<close> of every list is drawn at height \<open>i\<close>. A bar is its left end and its
  length. The figure is saved only when every step before has passed.
\<close>

record chart =
  subtitle :: string
  chart_ylim :: "rat \<times> rat"
  chart_xlim :: "int \<times> int"
  won_bars :: "(rat \<times> rat) list"
  lost_bars :: "(rat \<times> rat) list"
  won_labels :: "string list"
  lost_labels :: "string list"
  total_texts :: "(rat \<times> string) list"
  player_texts :: "(string \<times> string) list"
  team_bar :: "rat \<times> rat"
  opponent_bar :: "rat \<times> rat"
  team_label :: string
  opponent_label :: string
  legend_total :: string

definition LEGEND_TOTAL_WIDTH :: rat where
  "LEGEND_TOTAL_WIDTH = 6"

text \<open>\<^verbatim>\<open>np.max\<close> raises \<^verbatim>\<open>ValueError\<close> on an array of size zero.\<close>

definition np_max :: "rat list \<Rightarrow> error + rat" where
  "np_max xs = (case xs of [] \<Rightarrow> Inl ValueError | x # rest \<Rightarrow> Inr (fold max rest x))"

text \<open>The label inside a bar segment: \<^verbatim>\<open>str(int(v)) if v > 0 else ""\<close>.\<close>

definition bar_label :: "rat \<Rightarrow> string" where
  "bar_label v = (if 0 < v then str_int (int_of_float v) else '''')"

definition legend_label :: "int \<Rightarrow> string \<Rightarrow> int \<Rightarrow> string" where
  "legend_label pct nm wins_count =
     ''%'' @ str_int pct @ '' '' @ nm @ '' - ('' @ str_int wins_count @ '')''"

definition team_bar_width :: "team_summary \<Rightarrow> rat" where
  "team_bar_width team_stats = fl (fl (of_int (team_pct team_stats) / 100) * LEGEND_TOTAL_WIDTH)"

definition opponent_bar_width :: "team_summary \<Rightarrow> rat" where
  "opponent_bar_width team_stats = fl (LEGEND_TOTAL_WIDTH - team_bar_width team_stats)"

definition create_chart :: "player_duel list \<Rightarrow> match_info \<Rightarrow> team_summary \<Rightarrow> error + chart" where
  "create_chart players mi team_stats =
     (let sub = tournament mi @ '' - '' @ season mi @ '' | '' @ home_team mi @ '' ''
                @ str_int (home_score mi) @ '' - '' @ str_int (away_score mi) @ '' ''
                @ away_team mi @ '' ('' @ date mi @ '')'';
          won_arr = map (\<lambda>p. of_int (won p)) players;
          lost_arr = map (\<lambda>p. of_int (lost p)) players;
          totals = map (\<lambda>(w, l). w + l) (zip won_arr lost_arr);
          top = of_int (int (length players)) - 1 / 2 in
      bind (np_max totals) (\<lambda>m.
      let xmax = int_of_float (m + 3 / 2) in
      Inr \<lparr>subtitle = sub,
           chart_ylim = (- (1 / 2), top),
           chart_xlim = (0, xmax),
           won_bars = map (\<lambda>w. (0, w)) won_arr,
           lost_bars = zip won_arr lost_arr,
           won_labels = map bar_label won_arr,
           lost_labels = map bar_label lost_arr,
           total_texts = map (\<lambda>tot. (tot + 1 / 4, str_int (int_of_float tot))) totals,
           player_texts = map (\<lambda>p. (player p, str_int (minutes p) @ '' dakika'')) players,
           team_bar = (0, team_bar_width team_stats),
           opponent_bar = (team_bar_width team_stats, opponent_bar_width team_stats),
           team_label = legend_label (team_pct team_stats) (team_name team_stats) (team_won team_stats),
           opponent_label = legend_label (opponent_pct team_stats) (opponent_name team_stats)
                              (opponent_won team_stats),
           legend_total = str_int (total team_stats)\<rparr>))"

section \<open>Auxiliary notions\<close>


text \<open>
  \<open>add_back t\<close> is the float \<^verbatim>\<open>t + (LEGEND_TOTAL_WIDTH - t)\<close>, and \<open>legend_exact pct\<close> is
  Python's comparison \<^verbatim>\<open>team_bar_width + opponent_bar_width == LEGEND_TOTAL_WIDTH\<close> for
  the team percentage \<open>pct\<close>.
\<close>

definition add_back :: "rat \<Rightarrow> rat" where
  "add_back t = fl (t + fl (LEGEND_TOTAL_WIDTH - t))"

definition legend_exact :: "int \<Rightarrow> bool" where
  "legend_exact pct \<longleftrightarrow>
     add_back (fl (fl (of_int pct / 100) * LEGEND_TOTAL_WIDTH)) = LEGEND_TOTAL_WIDTH"

section \<open>Example inputs\<close>

text \<open>
  Seven rows: a goalkeeper, a substitute, a player of the other team, and four eligible
  players of team T, two of them with the same two keys and one without numbers.
\<close>

definition example_rows :: "player_row list" where
  "example_rows =
     [\<lparr>name = ''A'', position = ''D'', substitute = False, teamName = ''T'',
       minutesPlayed = Some 90, duelWon = Some 3, duelLost = Some 1\<rparr>,
      \<lparr>name = ''K'', position = ''G'', substitute = False, teamName = ''T'',
       minutesPlayed = Some 90, duelWon = Some 9, duelLost = Some 1\<rparr>,
      \<lparr>name = ''B'', position = ''M'', substitute = False, teamName = ''T'',
       minutesPlayed = Some 90, duelWon = Some 1, duelLost = Some 2\<rparr>,
      \<lparr>name = ''S'', position = ''M'', substitute = True, teamName = ''T'',
       minutesPlayed = Some 20, duelWon = Some 5, duelLost = Some 2\<rparr>,
      \<lparr>name = ''C'', position = ''F'', substitute = False, teamName = ''T'',
       minutesPlayed = Some 80, duelWon = Some 3, duelLost = Some 1\<rparr>,
      \<lparr>name = ''O'', position = ''F'', substitute = False, teamName = ''U'',
       minutesPlayed = Some 80, duelWon = Some 7, duelLost = Some 1\<rparr>,
      \<lparr>name = ''D'', position = ''F'', substitute = False, teamName = ''T'',
       minutesPlayed = None, duelWon = None, duelLost = Some 4\<rparr>]"

definition example_sorted :: "player_duel list" where
  "example_sorted =
     [\<lparr>player = ''A'', minutes = 90, won = 3, lost = 1\<rparr>,
      \<lparr>player = ''C'', minutes = 80, won = 3, lost = 1\<rparr>,
      \<lparr>player = ''D'', minutes = 0, won = 0, lost = 4\<rparr>,
      \<lparr>player = ''B'', minutes = 90, won = 1, lost = 2\<rparr>]"

definition example_match :: match_info where
  "example_match =
     \<lparr>home_team = ''T'', away_team = ''U'', home_score = 2, away_score = 1,
      tournament = ''Turkish Cup'', season = ''2025/2026'', date = ''4 Ekim 2025''\<rparr>"

definition example_team :: team_summary where
  "example_team =
     \<lparr>team_pct = 51, opponent_pct = 49, team_name = ''T'', opponent_name = ''U'',
      team_won = 45, opponent_won = 43, total = 88\<rparr>"

definition example_stats :: "team_row list" where
  "example_stats =
     [\<lparr>period = ''1ST'', stat_name = ''Duels'', home = ''60%'', away = ''40%'', homeValue = 60, awayValue = 40\<rparr>,
      \<lparr>period = ''ALL'', stat_name = ''Duels'', home = ''51%'', away = ''49%'', homeValue = 51, awayValue = 49\<rparr>,
      \<lparr>period = ''ALL'', stat_name = ''Ground duels'', home = ''30/58 (52%)'', away = ''28/58 (48%)'',
       homeValue = 30, awayValue = 28\<rparr>,
      \<lparr>period = ''ALL'', stat_name = ''Aerial duels'', home = ''15/30 (50%)'', away = ''15/30 (50%)'',
       homeValue = 15, awayValue = 15\<rparr>]"

definition example_dict :: match_dict where
  "example_dict =
     \<lparr>startTimestamp = Some 1759600800, tournament_name = Some ''Turkish Cup'',
      homeTeam_name = Some ''T'', awayTeam_name = Some ''U'',
      homeScore_current = Some 2, awayScore_current = Some 1\<rparr>"

definition example_clock :: "int \<Rightarrow> error + datetime" where
  "example_clock ts = Inr \<lparr>day = 4, month = 10, year = 2025\<rparr>"

section \<open>Properties of the builder\<close>

lemma select_rows_eq: "select_rows team players = filter (eligible team) players"
  unfolding select_rows_def Let_def filter_filter
  by (rule filter_cong) (auto simp: eligible_def)

lemma mset_insert_row: "mset (insert_row x ys) = add_mset x (mset ys)"
  by (induction ys) simp_all

lemma mset_sort_values: "mset (sort_values rows) = mset rows"
  by (induction rows) (simp_all add: sort_values_def mset_insert_row)

















lemmas builder_defs =
  sorted_result_def select_rows_def sort_values_def fill_row_def fillna_def to_dict_def
  outranks_def Let_def

lemma example_sorted_result: "sorted_result example_rows ''T'' = example_sorted"
  by (simp add: example_rows_def example_sorted_def builder_defs)





text \<open>
  Claim C3. The returned records are the records of exactly the eligible rows, one for
  every such row: as multisets, the output is the image of the rows that are not
  goalkeepers, not substitutes and of the requested team. A row that fails one of the
  three conditions contributes nothing.
\<close>

theorem C3_eligible_rows:
  "mset (fetch_player_duels players team) =
     image_mset player_record (filter_mset (eligible team) (mset players))"
proof -
  have "mset (fetch_player_duels players team) =
        image_mset to_dict (mset (sort_values (map fill_row (select_rows team players))))"
    by (simp add: fetch_player_duels_def sorted_result_def)
  also have "\<dots> = image_mset to_dict (image_mset fill_row (mset (select_rows team players)))"
    by (simp add: mset_sort_values)
  also have "\<dots> = image_mset player_record (mset (filter (eligible team) players))"
    by (simp add: select_rows_eq multiset.map_comp comp_def player_record_def [abs_def])
  finally show ?thesis by simp
qed

text \<open>The example: of seven rows, four are eligible for team T.\<close>

theorem C3_eligible_rows_witness:
  "image_mset player_record (filter_mset (eligible ''T'') (mset example_rows)) =
     mset (rev example_sorted)"
  using C3_eligible_rows [of example_rows "''T''"]
  by (simp add: fetch_player_duels_def example_sorted_result)

section \<open>Properties of the text functions and of the chart\<close>

lemma create_chart_empty: "create_chart [] mi ts = Inl ValueError"
  by (simp add: create_chart_def np_max_def bind_def)

lemma zip_map_same: "zip (map f xs) (map g xs) = map (\<lambda>x. (f x, g x)) xs"
  by (induction xs) simp_all

lemma totals_zip:
  "map (\<lambda>(w, l). w + l) (zip (map (\<lambda>p. rat_of_int (won p)) players) (map (\<lambda>p. rat_of_int (lost p)) players)) =
   map (\<lambda>p. rat_of_int (duel_total p)) players"
  by (induction players) (simp_all add: duel_total_def)

lemma np_max_totals:
  "players \<noteq> [] \<Longrightarrow>
   np_max (map (\<lambda>p. rat_of_int (duel_total p)) players) = Inr (rat_of_int (Max (duel_total ` set players)))"
proof -
  assume ne: "players \<noteq> []"
  then obtain p ps where ps: "players = p # ps" by (cases players) auto
  have "fold max (map (\<lambda>p. rat_of_int (duel_total p)) ps) (rat_of_int (duel_total p)) =
        Max (set (map (\<lambda>p. rat_of_int (duel_total p)) (p # ps)))"
    by (simp only: list.map Max.set_eq_fold)
  also have "\<dots> = Max (rat_of_int ` (duel_total ` set players))"
    by (simp add: ps image_image)
  also have "\<dots> = rat_of_int (Max (duel_total ` set players))"
    using ne by (intro mono_Max_commute [symmetric]) (auto simp: mono_def)
  finally show ?thesis by (simp add: np_max_def ps)
qed

text \<open>The figure of a list of players that is not empty.\<close>

lemma create_chart_nonempty:
  assumes "players \<noteq> []"
  shows "create_chart players mi ts =
     Inr \<lparr>subtitle = tournament mi @ '' - '' @ season mi @ '' | '' @ home_team mi @ '' ''
                @ str_int (home_score mi) @ '' - '' @ str_int (away_score mi) @ '' ''
                @ away_team mi @ '' ('' @ date mi @ '')'',
           chart_ylim = (- (1 / 2), of_int (int (length players)) - 1 / 2),
           chart_xlim = (0, int_of_float (rat_of_int (Max (duel_total ` set players)) + 3 / 2)),
           won_bars = map (\<lambda>p. (0, rat_of_int (won p))) players,
           lost_bars = map (\<lambda>p. (rat_of_int (won p), rat_of_int (lost p))) players,
           won_labels = map (\<lambda>p. bar_label (rat_of_int (won p))) players,
           lost_labels = map (\<lambda>p. bar_label (rat_of_int (lost p))) players,
           total_texts = map (\<lambda>p. (rat_of_int (duel_total p) + 1 / 4, str_int (duel_total p))) players,
           player_texts = map (\<lambda>p. (player p, str_int (minutes p) @ '' dakika'')) players,
           team_bar = (0, team_bar_width ts),
           opponent_bar = (team_bar_width ts, opponent_bar_width ts),
           team_label = legend_label (team_pct ts) (team_name ts) (team_won ts),
           opponent_label = legend_label (opponent_pct ts) (opponent_name ts) (opponent_won ts),
           legend_total = str_int (total ts)\<rparr>"
  unfolding create_chart_def Let_def totals_zip np_max_totals [OF assms] bind_def
  by (simp add: comp_def zip_map_same int_of_float_def)

lemma create_chart_Inr_nonempty: "create_chart players mi ts = Inr c \<Longrightarrow> players \<noteq> []"
  by (auto simp: create_chart_empty)












section \<open>The chart: empty input, axis bound, labels\<close>

lemmas text_eval = str_int_def str_nat.simps digit_char_def

lemma floor_rat_numeral: "\<lfloor>(numeral a :: rat) / numeral b\<rfloor> = numeral a div numeral b"
  using floor_divide_of_int_eq [of "numeral a" "numeral b", where ?'a = rat] by simp

lemma example_fetch: "fetch_player_duels example_rows ''T'' = rev example_sorted"
  by (simp add: fetch_player_duels_def example_sorted_result)

lemma no_eligible_empty:
  "\<forall>r\<in>set players. \<not> eligible team r \<Longrightarrow> fetch_player_duels players team = []"
  by (simp add: fetch_player_duels_def sorted_result_def select_rows_eq sort_values_def)

text \<open>
  Claim C4, as the code has it. When no row is eligible, \<open>fetch_player_duels\<close> returns the
  empty list and raises nothing. \<open>create_chart\<close> on that list does not draw an empty
  chart panel: the maximum of the empty array of totals raises \<^verbatim>\<open>ValueError\<close>, after the
  title panel and before the figure is saved.
\<close>

theorem C4_empty_chart_raises:
  "\<forall>r\<in>set players. \<not> eligible team r \<Longrightarrow>
     fetch_player_duels players team = [] \<and>
     create_chart (fetch_player_duels players team) mi ts = Inl ValueError"
  by (simp add: no_eligible_empty create_chart_empty)

text \<open>No row of the example belongs to team X.\<close>

theorem C4_empty_chart_raises_witness:
  "fetch_player_duels example_rows ''X'' = [] \<and>
   create_chart (fetch_player_duels example_rows ''X'') example_match example_team = Inl ValueError"
proof -
  have "\<forall>r\<in>set example_rows. \<not> eligible ''X'' r"
    by (simp add: example_rows_def eligible_def)
  then show ?thesis by (rule C4_empty_chart_raises)
qed

text \<open>
  Claim C4 as stated asks for a chart without an error; for a team without eligible
  rows the result of \<open>create_chart\<close> is the exception.
\<close>

theorem C4_counterexample:
  "create_chart (fetch_player_duels example_rows ''X'') example_match example_team = Inl ValueError"
  by (simp add: fetch_player_duels_def example_rows_def builder_defs create_chart_empty)







text \<open>
  Claim C9, as the code has it. Each of the two legend segments is labelled with the
  percent sign first, then the percentage, the team name of the side, and the wins of
  that side in parentheses: \<^verbatim>\<open>%{pct} {name} - ({winsCount})\<close>.
\<close>

theorem C9_legend_labels:
  assumes "create_chart players mi ts = Inr c"
  shows "team_label c =
           ''%'' @ str_int (team_pct ts) @ '' '' @ team_name ts @ '' - ('' @ str_int (team_won ts) @ '')'' \<and>
         opponent_label c =
           ''%'' @ str_int (opponent_pct ts) @ '' '' @ opponent_name ts @ '' - (''
             @ str_int (opponent_won ts) @ '')''"
proof -
  from assms have ne: "players \<noteq> []" by (rule create_chart_Inr_nonempty)
  from assms show ?thesis
    by (auto simp: create_chart_nonempty [OF ne] legend_label_def)
qed

text \<open>The example: 51 per cent and 45 wins for T, 49 per cent and 43 wins for U.\<close>

theorem C9_legend_labels_witness:
  "\<exists>c. create_chart (rev example_sorted) example_match example_team = Inr c \<and>
       team_label c = ''%51 T - (45)'' \<and> opponent_label c = ''%49 U - (43)''"
proof -
  have ne: "rev example_sorted \<noteq> []" by (simp add: example_sorted_def)
  then obtain c where c: "create_chart (rev example_sorted) example_match example_team = Inr c"
    by (simp add: create_chart_nonempty)
  from C9_legend_labels [OF c] c show ?thesis
    by (simp add: example_team_def text_eval)
qed

text \<open>
  Claim C9 as stated puts the percent sign after the number; the label of the example
  starts with the percent sign.
\<close>

theorem C9_counterexample:
  "map_sum id team_label (create_chart (rev example_sorted) example_match example_team) =
     Inr ''%51 T - (45)'' \<and>
   ''%51 T - (45)'' \<noteq> ''51% T - (45)''"
proof -
  have ne: "rev example_sorted \<noteq> []" by (simp add: example_sorted_def)
  show ?thesis
    by (simp add: create_chart_nonempty [OF ne] legend_label_def example_team_def text_eval)
qed

section \<open>Floating point\<close>

text \<open>
  The exponent found by \<open>expo\<close> is below every bound of its argument, so a multiple of
  a quarter with a numerator below \<open>2 ^ 53\<close> is a whole multiple of the unit of its
  binade, and rounding returns it unchanged.
\<close>

lemma expo_upper: "x < 2 ^ Suc j \<Longrightarrow> expo n x \<le> int j"
proof (induction n arbitrary: x j)
  case 0
  then show ?case by simp
next
  case (Suc n)
  show ?case
  proof (cases "2 \<le> x")
    case True
    with Suc.prems obtain i where j: "j = Suc i"
      by (cases j) auto
    with Suc.prems have "x / 2 < 2 ^ Suc i" by simp
    then have "expo n (x / 2) \<le> int i" by (rule Suc.IH)
    with True j show ?thesis by simp
  next
    case False
    show ?thesis
    proof (cases "x < 1")
      case True
      have "(2::rat) \<le> 2 ^ Suc j" by simp
      with True have "x * 2 < 2 ^ Suc j" by linarith
      then have "expo n (x * 2) \<le> int j" by (rule Suc.IH)
      with True False show ?thesis by simp
    next
      case False
      with \<open>\<not> 2 \<le> x\<close> show ?thesis by simp
    qed
  qed
qed

lemma round_half_even_of_int: "round_half_even (of_int z) = z"
  by (simp add: round_half_even_def)

lemma fl_quarters:
  assumes "\<bar>k\<bar> < 2 ^ 53"
  shows "fl (of_int k / 4) = of_int k / 4"
proof (cases "k = 0")
  case True
  then show ?thesis by (simp add: fl_def)
next
  case False
  let ?x = "rat_of_int k / 4"
  define e where "e = expo 1100 \<bar>?x\<bar>"
  from assms have "rat_of_int \<bar>k\<bar> < 2 ^ 53"
    by (metis of_int_less_numeral_power_cancel_iff)
  then have "\<bar>?x\<bar> < 2 ^ Suc 50" by simp
  then have "expo 1100 \<bar>?x\<bar> \<le> int 50" by (rule expo_upper)
  then have e: "e \<le> 50" by (simp add: e_def)
  define m where "m = nat (50 - e)"
  with e have em: "52 - e = int (m + 2)" by simp
  then have "nat (- (e - 52)) = m + 2" by linarith
  with e have u: "pow2 (e - 52) = 1 / 2 ^ (m + 2)"
    by (simp only: pow2_def) simp
  have "?x / pow2 (e - 52) = of_int (k * 2 ^ m)"
    by (simp add: u)
  then have "round_half_even (?x / pow2 (e - 52)) = k * 2 ^ m"
    by (simp only: round_half_even_of_int)
  then have "fl ?x = of_int (k * 2 ^ m) * pow2 (e - 52)"
    using False by (simp add: fl_def e_def Let_def)
  also have "\<dots> = ?x" by (simp add: u)
  finally show ?thesis .
qed

section \<open>The legend widths\<close>

lemma expo_numeral:
  "expo (numeral k) x =
     (if 2 \<le> x then expo (pred_numeral k) (x / 2) + 1
      else if x < 1 then expo (pred_numeral k) (x * 2) - 1 else 0)"
  by (simp add: numeral_eq_Suc)

lemmas fl_eval = fl_def round_half_even_def pow2_def expo_numeral Let_def floor_rat_numeral

lemmas legend_eval = legend_exact_def add_back_def LEGEND_TOTAL_WIDTH_def fl_eval

lemma legend_sum_0: "legend_exact 0"
  by (simp add: legend_eval)

lemma legend_sum_1: "legend_exact 1"
  by (simp add: legend_eval)

lemma legend_sum_a: "list_all legend_exact [2..20]"
  by (simp add: legend_eval)

lemma legend_sum_b: "list_all legend_exact [21..40]"
  by (simp add: legend_eval)

lemma legend_sum_c: "list_all legend_exact [41..60]"
  by (simp add: legend_eval)

lemma legend_sum_d: "list_all legend_exact [61..80]"
  by (simp add: legend_eval)

lemma legend_sum_e: "list_all legend_exact [81..100]"
  by (simp add: legend_eval)

text \<open>
  The float sum of the two widths, for every percentage from 0 to 100, by evaluation of
  each case.
\<close>

lemma legend_exact_all:
  assumes "0 \<le> p" and "p \<le> 100"
  shows "legend_exact p"
proof -
  from assms have "p = 0 \<or> p = 1 \<or> (2 \<le> p \<and> p \<le> 20) \<or> (21 \<le> p \<and> p \<le> 40) \<or>
      (41 \<le> p \<and> p \<le> 60) \<or> (61 \<le> p \<and> p \<le> 80) \<or> (81 \<le> p \<and> p \<le> 100)"
    by arith
  then have "p = 0 \<or> p = 1 \<or> p \<in> set [2..20] \<or> p \<in> set [21..40] \<or> p \<in> set [41..60] \<or>
      p \<in> set [61..80] \<or> p \<in> set [81..100]"
    by (simp only: set_upto atLeastAtMost_iff)
  moreover have "\<forall>q\<in>set [2..20]. legend_exact q" "\<forall>q\<in>set [21..40]. legend_exact q"
    "\<forall>q\<in>set [41..60]. legend_exact q" "\<forall>q\<in>set [61..80]. legend_exact q"
    "\<forall>q\<in>set [81..100]. legend_exact q"
    using legend_sum_a legend_sum_b legend_sum_c legend_sum_d legend_sum_e
    by (simp_all only: list_all_iff)
  ultimately show ?thesis using legend_sum_0 legend_sum_1 by blast
qed

lemma fl_306: "fl (fl (51 / 100) * 6) = 6890507429876859 / 2251799813685248"
  by (simp add: fl_eval)

lemma fl_294: "fl (6 - 6890507429876859 / 2251799813685248) = 6620291452234629 / 2251799813685248"
  by (simp add: fl_eval)

lemma fl_literals:
  "fl (306 / 100) = 6890507429876859 / 2251799813685248"
  "fl (294 / 100) = 6620291452234629 / 2251799813685248"
  by (simp_all add: fl_eval)

text \<open>
  Claim C6. For a team percentage from 0 to 100 the width of the team segment is the
  float \<^verbatim>\<open>(team_pct / 100) * LEGEND_TOTAL_WIDTH\<close> and the width of the opponent segment is
  the float \<^verbatim>\<open>LEGEND_TOTAL_WIDTH - team_bar_width\<close>; their float sum is
  \<^verbatim>\<open>LEGEND_TOTAL_WIDTH\<close> exactly. For 51 per cent the widths are the floats 3.06 and
  2.94.
\<close>

theorem C6_legend_widths:
  assumes "create_chart players mi ts = Inr c" and "0 \<le> team_pct ts" and "team_pct ts \<le> 100"
  shows "snd (team_bar c) = fl (fl (rat_of_int (team_pct ts) / 100) * LEGEND_TOTAL_WIDTH) \<and>
         snd (opponent_bar c) = fl (LEGEND_TOTAL_WIDTH - snd (team_bar c)) \<and>
         fl (snd (team_bar c) + snd (opponent_bar c)) = LEGEND_TOTAL_WIDTH \<and>
         (team_pct ts = 51 \<longrightarrow>
            snd (team_bar c) = fl (306 / 100) \<and> snd (opponent_bar c) = fl (294 / 100))"
proof -
  from assms(1) have ne: "players \<noteq> []" by (rule create_chart_Inr_nonempty)
  from assms(1) have t: "snd (team_bar c) = team_bar_width ts"
    and opp: "snd (opponent_bar c) = opponent_bar_width ts"
    by (auto simp: create_chart_nonempty [OF ne])
  have "legend_exact (team_pct ts)" using assms(2,3) by (rule legend_exact_all)
  then have total: "fl (snd (team_bar c) + snd (opponent_bar c)) = LEGEND_TOTAL_WIDTH"
    by (simp only: legend_exact_def add_back_def t opp team_bar_width_def opponent_bar_width_def)
  have team: "snd (team_bar c) = fl (fl (rat_of_int (team_pct ts) / 100) * LEGEND_TOTAL_WIDTH)"
    by (simp only: t team_bar_width_def)
  have other: "snd (opponent_bar c) = fl (LEGEND_TOTAL_WIDTH - snd (team_bar c))"
    by (simp only: t opp opponent_bar_width_def)
  have "snd (team_bar c) = fl (306 / 100) \<and> snd (opponent_bar c) = fl (294 / 100)"
    if "team_pct ts = 51"
    by (simp only: t opp opponent_bar_width_def team_bar_width_def that LEGEND_TOTAL_WIDTH_def
        of_int_numeral fl_306 fl_294 fl_literals simp_thms)
  with team other total show ?thesis by blast
qed

text \<open>The example, with 51 per cent: the two widths as fractions, and their float sum.\<close>

theorem C6_legend_widths_witness:
  "\<exists>c. create_chart (rev example_sorted) example_match example_team = Inr c \<and>
       snd (team_bar c) = 6890507429876859 / 2251799813685248 \<and>
       snd (opponent_bar c) = 6620291452234629 / 2251799813685248 \<and>
       fl (snd (team_bar c) + snd (opponent_bar c)) = 6"
proof -
  have ne: "rev example_sorted \<noteq> []" by (simp add: example_sorted_def)
  then obtain c where c: "create_chart (rev example_sorted) example_match example_team = Inr c"
    by (simp add: create_chart_nonempty)
  have pct: "team_pct example_team = 51" by (simp add: example_team_def)
  have range: "0 \<le> team_pct example_team" "team_pct example_team \<le> 100"
    by (simp_all add: example_team_def)
  from C6_legend_widths [OF c range] pct
  have "snd (team_bar c) = fl (306 / 100)" and "snd (opponent_bar c) = fl (294 / 100)"
    and "fl (snd (team_bar c) + snd (opponent_bar c)) = LEGEND_TOTAL_WIDTH"
    by blast+
  then have "snd (team_bar c) = 6890507429876859 / 2251799813685248"
    and "snd (opponent_bar c) = 6620291452234629 / 2251799813685248"
    and "fl (snd (team_bar c) + snd (opponent_bar c)) = 6"
    by (simp_all only: fl_literals LEGEND_TOTAL_WIDTH_def)
  with c show ?thesis by blast
qed

section \<open>Match metadata and team summary\<close>

text \<open>
  Claim C10. Whatever the dictionary of the match and the clock, the season of a summary
  that \<open>fetch_match_info\<close> builds is the text \<^verbatim>\<open>2025/2026\<close>.
\<close>

theorem C10_season_constant:
  "fetch_match_info fromtimestamp md = Inr mi \<Longrightarrow> season mi = ''2025/2026''"
  by (auto simp: fetch_match_info_def bind_def Let_def split: sum.splits)

text \<open>The example: a match of 4 October 2025.\<close>

theorem C10_season_constant_witness:
  "\<exists>mi. fetch_match_info example_clock example_dict = Inr mi \<and>
        date mi = ''4 Ekim 2025'' \<and> season mi = ''2025/2026''"
proof -
  have "\<exists>mi. fetch_match_info example_clock example_dict = Inr mi \<and> date mi = ''4 Ekim 2025''"
    by (simp add: fetch_match_info_def bind_def subscript_def example_clock_def example_dict_def
        TURKISH_MONTHS_def text_eval)
  then obtain mi where mi: "fetch_match_info example_clock example_dict = Inr mi"
    and d: "date mi = ''4 Ekim 2025''" by blast
  from C10_season_constant [OF mi] mi d show ?thesis by blast
qed

lemmas parse_eval =
  replace_percent_def int_of_str_def strip_def is_space_def unsigned_value_def is_digit_def
  digit_val_def

text \<open>
  Claim C8 as stated asks for a lookup error when the name is neither of the two; for the
  name X the function returns a summary.
\<close>

theorem C8_counterexample:
  "''X'' \<noteq> ''T'' \<and> ''X'' \<noteq> ''U'' \<and>
   fetch_team_percentages example_stats (''T'', ''U'') ''X'' =
     Inr \<lparr>team_pct = 49, opponent_pct = 51, team_name = ''X'', opponent_name = ''T'',
          team_won = 43, opponent_won = 45, total = 88\<rparr>"
  by (simp add: fetch_team_percentages_def example_stats_def bind_def iloc0_def parse_eval)

text \<open>
  Claim C8, as the code has it. A requested name that is not the home name is taken for
  the away side, also when it is not the away name either: no error is raised for it.
  With the three rows present and both percentages readable, the summary carries the
  requested name, the home team as opponent, the away percentage and the away counts for
  the team, and the home percentage and the home counts for the opponent.
\<close>

theorem C8_other_name_is_away:
  assumes "team \<noteq> fst teams"
    and "iloc0 (filter (\<lambda>r. stat_name r = ''Duels'') (filter (\<lambda>r. period r = ''ALL'') stats)) = Inr duel_row"
    and "iloc0 (filter (\<lambda>r. stat_name r = ''Ground duels'') (filter (\<lambda>r. period r = ''ALL'') stats)) = Inr ground_row"
    and "iloc0 (filter (\<lambda>r. stat_name r = ''Aerial duels'') (filter (\<lambda>r. period r = ''ALL'') stats)) = Inr aerial_row"
    and "int_of_str (replace_percent (away duel_row)) = Inr tp"
    and "int_of_str (replace_percent (home duel_row)) = Inr op"
  shows "fetch_team_percentages stats teams team =
     Inr \<lparr>team_pct = tp, opponent_pct = op, team_name = team, opponent_name = fst teams,
          team_won = awayValue ground_row + awayValue aerial_row,
          opponent_won = homeValue ground_row + homeValue aerial_row,
          total = awayValue ground_row + awayValue aerial_row
                  + (homeValue ground_row + homeValue aerial_row)\<rparr>"
  using assms by (auto simp: fetch_team_percentages_def bind_def Let_def)

text \<open>The example with the name Z, which is neither T nor U.\<close>

theorem C8_other_name_is_away_witness:
  "fetch_team_percentages example_stats (''T'', ''U'') ''Z'' =
     Inr \<lparr>team_pct = 49, opponent_pct = 51, team_name = ''Z'', opponent_name = ''T'',
          team_won = 43, opponent_won = 45, total = 88\<rparr>"
proof -
  let ?duel = "\<lparr>period = ''ALL'', stat_name = ''Duels'', home = ''51%'', away = ''49%'',
                homeValue = 51, awayValue = 49\<rparr>"
  let ?ground = "\<lparr>period = ''ALL'', stat_name = ''Ground duels'', home = ''30/58 (52%)'',
                  away = ''28/58 (48%)'', homeValue = 30, awayValue = 28\<rparr>"
  let ?aerial = "\<lparr>period = ''ALL'', stat_name = ''Aerial duels'', home = ''15/30 (50%)'',
                  away = ''15/30 (50%)'', homeValue = 15, awayValue = 15\<rparr>"
  have other: "''Z'' \<noteq> fst (''T'', ''U'')" by simp
  have d: "iloc0 (filter (\<lambda>r. stat_name r = ''Duels'') (filter (\<lambda>r. period r = ''ALL'') example_stats))
             = Inr ?duel"
    by (simp add: example_stats_def iloc0_def)
  have g: "iloc0 (filter (\<lambda>r. stat_name r = ''Ground duels'')
             (filter (\<lambda>r. period r = ''ALL'') example_stats)) = Inr ?ground"
    by (simp add: example_stats_def iloc0_def)
  have a: "iloc0 (filter (\<lambda>r. stat_name r = ''Aerial duels'')
             (filter (\<lambda>r. period r = ''ALL'') example_stats)) = Inr ?aerial"
    by (simp add: example_stats_def iloc0_def)
  have tp: "int_of_str (replace_percent (away ?duel)) = Inr 49"
    by (simp add: parse_eval)
  have op: "int_of_str (replace_percent (home ?duel)) = Inr 51"
    by (simp add: parse_eval)
  from C8_other_name_is_away [OF other d g a tp op] show ?thesis by simp
qed

end
